theory Spec2Isabelle
  imports Complex_Main
begin

section \<open>Conventions\<close>

text \<open>
  The services are Python classes working on \<open>float\<close> values and \<open>dict\<close>s.
  A Python \<open>float\<close> is modelled as a \<open>real\<close>: arithmetic is exact, there is no rounding,
  no infinity and no NaN. Dictionaries with a fixed set of keys written by the code itself
  become records; the open-ended signal and indicator bags stay maps from key to value.
  An exception is a value of type \<open>error\<close>, and a function that may raise returns
  \<open>error + 'a\<close> with \<open>Inl\<close> for the exception.

  What the services obtain from outside (the exchange's HTTP interface, the \<open>ta\<close>
  indicator library, the trained network and its scaler, the text scorers, the clock) is
  an argument of the function that uses it.
\<close>

datatype error =
    ValueError string
  | KeyError string
  | IndexError string
  | PyException string

text \<open>Python truthiness of an optional number: \<open>None\<close> and \<open>0.0\<close> are false.\<close>

definition truthy :: "real option \<Rightarrow> bool" where
  "truthy x = (case x of None \<Rightarrow> False | Some v \<Rightarrow> v \<noteq> 0)"

text \<open>\<open>d.get(key, default)\<close>\<close>

definition get_or :: "('k \<rightharpoonup> 'v) \<Rightarrow> 'k \<Rightarrow> 'v \<Rightarrow> 'v" where
  "get_or m k d = (case m k of None \<Rightarrow> d | Some v \<Rightarrow> v)"

text \<open>
  One candlestick as \<open>DataFetcher.get_klines\<close> returns it, with the keys the services
  read. A data frame built from candlesticks is the list of its rows.
\<close>

record kline =
  k_openTime :: int
  k_open :: real
  k_high :: real
  k_low :: real
  k_close :: real
  k_volume :: real

section \<open>Sentiment analyzer (sentiment\_analyzer.py)\<close>

text \<open>The score dictionary of one text, as \<open>_analyze_text_sentiment\<close> returns it.\<close>

record text_sentiment =
  compound :: real
  positive :: real
  negative :: real
  neutral :: real

record analysis_details =
  positive_count :: int
  negative_count :: int
  neutral_count :: int

record source_counts =
  news :: int
  social :: int

text \<open>
  The result of \<open>_aggregate_sentiment_results\<close>, and the result of \<open>analyze_sentiment\<close>,
  which adds \<open>sources_analyzed\<close> and \<open>source_breakdown\<close> to it.
\<close>

record aggregated_sentiment =
  sd_sentiment_score :: real
  sd_sentiment_label :: string
  sd_confidence :: real
  sd_analysis_details :: analysis_details

record sentiment_data = aggregated_sentiment +
  sd_sources_analyzed :: int
  sd_source_breakdown :: source_counts

text \<open>\<open>np.mean\<close> and \<open>np.std\<close> (the population standard deviation) of a non-empty list.\<close>

definition np_mean :: "real list \<Rightarrow> real" where
  "np_mean xs = sum_list xs / real (length xs)"

definition np_std :: "real list \<Rightarrow> real" where
  "np_std xs = sqrt (np_mean (map (\<lambda>x. \<bar>x - np_mean xs\<bar> ^ 2) xs))"

text \<open>\<open>sum(1 for score in compound_scores if p(score))\<close>\<close>

definition count_if :: "('a \<Rightarrow> bool) \<Rightarrow> 'a list \<Rightarrow> int" where
  "count_if p xs = int (length (filter p xs))"

text \<open>\<open>_aggregate_sentiment_results\<close>\<close>

definition aggregate_sentiment_results :: "text_sentiment list \<Rightarrow> aggregated_sentiment" where
  "aggregate_sentiment_results sentiment_results =
     (if sentiment_results = []
      then \<lparr> sd_sentiment_score = 0, sd_sentiment_label = ''neutral'', sd_confidence = 0,
             sd_analysis_details =
               \<lparr> positive_count = 0, negative_count = 0, neutral_count = 0 \<rparr> \<rparr>
      else
        let compound_scores = map compound sentiment_results;
            avg_sentiment = np_mean compound_scores;
            std_sentiment = np_std compound_scores;
            conf = max 0 (1 - std_sentiment / 2);
            sentiment_label = (if avg_sentiment \<ge> 0.05 then ''positive''
                               else if avg_sentiment \<le> - 0.05 then ''negative''
                               else ''neutral'');
            pos = count_if (\<lambda>score. score \<ge> 0.05) compound_scores;
            neg = count_if (\<lambda>score. score \<le> - 0.05) compound_scores;
            neu = int (length compound_scores) - pos - neg
        in \<lparr> sd_sentiment_score = avg_sentiment, sd_sentiment_label = sentiment_label,
             sd_confidence = conf,
             sd_analysis_details =
               \<lparr> positive_count = pos, negative_count = neg, neutral_count = neu \<rparr> \<rparr>)"

text \<open>
  \<open>analyze_sentiment\<close>. The two fetchers catch every exception and return the texts they
  found, so their results are lists; \<open>score_text\<close> stands for \<open>_analyze_text_sentiment\<close>.
  \<open>sources\<close> is the list of source names, \<open>["news", "social"]\<close> by default.
\<close>

definition analyze_sentiment ::
  "(string \<Rightarrow> text_sentiment) \<Rightarrow> string list \<Rightarrow> string list \<Rightarrow> string list \<Rightarrow> sentiment_data" where
  "analyze_sentiment score_text sources fetched_news fetched_social =
     (let news_texts = (if ''news'' \<in> set sources then fetched_news else []);
          social_texts = (if ''social'' \<in> set sources then fetched_social else []);
          all_texts = news_texts @ social_texts;
          counts = \<lparr> news = int (length news_texts), social = int (length social_texts) \<rparr>
      in if all_texts = []
         then \<lparr> sd_sentiment_score = 0, sd_sentiment_label = ''neutral'', sd_confidence = 0,
                sd_analysis_details =
                  \<lparr> positive_count = 0, negative_count = 0, neutral_count = 0 \<rparr>,
                sd_sources_analyzed = 0, sd_source_breakdown = counts \<rparr>
         else aggregated_sentiment.extend
                (aggregate_sentiment_results (map score_text all_texts))
                \<lparr> sd_sources_analyzed = int (length all_texts),
                  sd_source_breakdown = counts \<rparr>)"

section \<open>Technical analyzer (technical\_analyzer.py)\<close>

text \<open>
  The dictionary returned by \<open>analyze\<close>. Indicators that the code stores as \<open>None\<close>
  (only \<open>sma_200\<close>, which nothing reads) are absent from the indicator map.
\<close>

record technical_data =
  td_indicators :: "string \<rightharpoonup> real"
  td_signals :: "string \<rightharpoonup> string"
  td_support_levels :: "real list"
  td_resistance_levels :: "real list"
  td_trend :: string
  td_strength :: real

text \<open>
  \<open>_get_historical_data\<close> of the technical analyzer. Its argument is the outcome of
  parsing the period and calling \<open>get_klines\<close>. The rows go into a data frame whose
  \<open>openTime\<close> column becomes the sorted index; a frame built from no rows has no columns,
  and reading \<open>df['openTime']\<close> raises \<open>KeyError\<close>. (The sort is stable here; rows with
  equal \<open>openTime\<close> may come out of pandas in another order.)
\<close>

definition ta_get_historical_data :: "error + kline list \<Rightarrow> error + kline list" where
  "ta_get_historical_data fetched =
     (case fetched of
        Inl e \<Rightarrow> Inl e
      | Inr klines \<Rightarrow>
          if klines = [] then Inl (KeyError ''openTime'')
          else Inr (sort_key k_openTime klines))"

text \<open>
  \<open>_calculate_indicators\<close>: the indicator values come from the \<open>ta\<close> library; if any
  of its calls raises, the handler returns the empty dictionary.
\<close>

definition calculate_indicators :: "error + (string \<rightharpoonup> real) \<Rightarrow> (string \<rightharpoonup> real)" where
  "calculate_indicators computed = (case computed of Inl e \<Rightarrow> Map.empty | Inr indicators \<Rightarrow> indicators)"

text \<open>
  \<open>_generate_signals\<close>. On an empty frame \<open>df['close'].iloc[-1]\<close> raises and the handler
  returns the empty dictionary.
\<close>

definition generate_signals :: "kline list \<Rightarrow> (string \<rightharpoonup> real) \<Rightarrow> (string \<rightharpoonup> string)" where
  "generate_signals df indicators =
     (if df = [] then Map.empty
      else
        let signals = Map.empty;
            current_price = k_close (last df);
            rsi = get_or indicators ''rsi'' 50;
            signals = signals(''rsi'' \<mapsto>
                        (if rsi > 70 then ''overbought''
                         else if rsi < 30 then ''oversold''
                         else ''neutral''));
            macd = get_or indicators ''macd'' 0;
            macd_signal = get_or indicators ''macd_signal'' 0;
            signals = signals(''macd'' \<mapsto>
                        (if macd > macd_signal then ''bullish'' else ''bearish''));
            sma_20 = indicators ''sma_20'';
            sma_50 = indicators ''sma_50'';
            signals =
              (if truthy sma_20 \<and> truthy sma_50
               then signals(''ma_trend'' \<mapsto>
                      (if current_price > the sma_20 \<and> the sma_20 > the sma_50
                       then ''strong_bullish''
                       else if current_price > the sma_20 \<and> the sma_20 < the sma_50
                       then ''weak_bullish''
                       else if current_price < the sma_20 \<and> the sma_20 < the sma_50
                       then ''strong_bearish''
                       else ''weak_bearish''))
               else signals);
            bb_upper = indicators ''bb_upper'';
            bb_lower = indicators ''bb_lower'';
            signals =
              (if truthy bb_upper \<and> truthy bb_lower
               then signals(''bollinger'' \<mapsto>
                      (if current_price > the bb_upper then ''overbought''
                       else if current_price < the bb_lower then ''oversold''
                       else ''neutral''))
               else signals);
            stoch_k = get_or indicators ''stoch_k'' 50;
            stoch_d = get_or indicators ''stoch_d'' 50;
            signals = signals(''stochastic'' \<mapsto>
                        (if stoch_k > 80 \<and> stoch_d > 80 then ''overbought''
                         else if stoch_k < 20 \<and> stoch_d < 20 then ''oversold''
                         else ''neutral''));
            adx = get_or indicators ''adx'' 25;
            signals = signals(''trend_strength'' \<mapsto>
                        (if adx > 50 then ''very_strong''
                         else if adx > 25 then ''strong''
                         else ''weak''));
            volume_sma = indicators ''volume_sma'';
            current_volume = k_volume (last df);
            signals = signals(''volume'' \<mapsto>
                        (if truthy volume_sma \<and> current_volume > the volume_sma * 1.5
                         then ''high''
                         else if truthy volume_sma \<and> current_volume < the volume_sma * 0.5
                         then ''low''
                         else ''normal''))
        in signals)"

text \<open>
  \<open>rolling(window=w, center=True)\<close>: the value at row \<open>i\<close> aggregates the \<open>w\<close> rows
  \<open>i + (w - 1) // 2 - w + 1, ..., i + (w - 1) // 2\<close> and is missing unless all of them
  exist.
\<close>

definition rolling_center :: "(real set \<Rightarrow> real) \<Rightarrow> nat \<Rightarrow> real list \<Rightarrow> nat \<Rightarrow> real option" where
  "rolling_center agg w xs i =
     (let off = (w - 1) div 2
      in if 0 < w \<and> w \<le> i + off + 1 \<and> i + off < length xs
         then Some (agg (set (take w (drop (i + off + 1 - w) xs))))
         else None)"

text \<open>\<open>sorted(list(set(levels)))\<close>: the distinct values in ascending order.\<close>

definition sorted_distinct :: "real list \<Rightarrow> real list" where
  "sorted_distinct levels = sort (remdups levels)"

text \<open>
  \<open>_find_support_resistance\<close>: the rows \<open>window \<le> i < len(df) - window\<close> whose high
  (low) equals the centred rolling maximum (minimum); the five highest distinct highs in
  descending order and the five lowest distinct lows in ascending order.
\<close>

definition find_support_resistance :: "kline list \<Rightarrow> nat \<Rightarrow> real list \<times> real list" where
  "find_support_resistance df window =
     (let high = map k_high df;
          low = map k_low df;
          rows = [window ..< length df - window];
          resistance_levels =
            map (\<lambda>i. high ! i) (filter (\<lambda>i. Some (high ! i) = rolling_center Max window high i) rows);
          support_levels =
            map (\<lambda>i. low ! i) (filter (\<lambda>i. Some (low ! i) = rolling_center Min window low i) rows);
          resistance_levels = take 5 (rev (sorted_distinct resistance_levels));
          support_levels = take 5 (sorted_distinct support_levels)
      in (support_levels, resistance_levels))"

text \<open>
  \<open>_determine_trend\<close>. The momentum is the relative change over the last ten closes;
  for a zero close ten rows back numpy divides to an infinity of the numerator's sign
  (or to NaN for \<open>0/0\<close>), which the comparisons with \<open>\<plusminus>0.02\<close> see as written out
  below. On an empty frame the handler returns \<open>("unknown", 0.0)\<close>.
\<close>

definition determine_trend :: "kline list \<Rightarrow> (string \<rightharpoonup> real) \<Rightarrow> string \<times> real" where
  "determine_trend df indicators =
     (if df = [] then (''unknown'', 0)
      else
        let current_price = k_close (last df);
            trend_score = (0::int);
            factors = (0::int);
            sma_20 = indicators ''sma_20'';
            sma_50 = indicators ''sma_50'';
            both = (truthy sma_20 \<and> truthy sma_50);
            trend_score = (if both then (if current_price > the sma_20 then trend_score + 1
                                         else trend_score - 1) else trend_score);
            factors = (if both then factors + 1 else factors);
            trend_score = (if both then (if the sma_20 > the sma_50 then trend_score + 1
                                         else trend_score - 1) else trend_score);
            factors = (if both then factors + 1 else factors);
            macd = get_or indicators ''macd'' 0;
            macd_signal = get_or indicators ''macd_signal'' 0;
            trend_score = (if macd > macd_signal then trend_score + 1 else trend_score - 1);
            factors = factors + 1;
            adx_pos = get_or indicators ''adx_pos'' 25;
            adx_neg = get_or indicators ''adx_neg'' 25;
            trend_score = (if adx_pos > adx_neg then trend_score + 1 else trend_score - 1);
            factors = factors + 1;
            enough = (length df \<ge> 10);
            past = k_close (df ! (length df - 10));
            rising = (if past = 0 then current_price > 0
                      else (current_price - past) / past > 0.02);
            falling = (if past = 0 then current_price < 0
                       else (current_price - past) / past < - 0.02);
            trend_score = (if enough then (if rising then trend_score + 1
                                           else if falling then trend_score - 1
                                           else trend_score) else trend_score);
            factors = (if enough then factors + 1 else factors)
        in if factors > 0
           then let trend_ratio = real_of_int trend_score / real_of_int factors;
                    trend = (if trend_ratio > 0.6 then ''bullish''
                             else if trend_ratio < - 0.6 then ''bearish''
                             else ''sideways'')
                in (trend, \<bar>trend_ratio\<bar>)
           else (''unknown'', 0))"

text \<open>
  \<open>analyze\<close>. \<open>fetched\<close> is the outcome of fetching the candlesticks and \<open>computed\<close> the
  outcome of the indicator library on the frame. Fewer than 50 rows raise
  \<open>ValueError\<close>; the four helpers catch their own exceptions.
\<close>

definition analyze ::
  "string \<Rightarrow> error + kline list \<Rightarrow> error + (string \<rightharpoonup> real) \<Rightarrow> error + technical_data" where
  "analyze symbol fetched computed =
     (case ta_get_historical_data fetched of
        Inl e \<Rightarrow> Inl e
      | Inr df \<Rightarrow>
          if length df < 50
          then Inl (ValueError (''Insufficient data for technical analysis of '' @ symbol))
          else
            let indicators = calculate_indicators computed;
                signals = generate_signals df indicators;
                levels = find_support_resistance df 20;
                trend_strength = determine_trend df indicators
            in Inr \<lparr> td_indicators = indicators,
                     td_signals = signals,
                     td_support_levels = fst levels,
                     td_resistance_levels = snd levels,
                     td_trend = fst trend_strength,
                     td_strength = snd trend_strength \<rparr>)"

section \<open>Price predictor (price\_predictor.py)\<close>

record timeframe_config =
  periods :: int
  interval :: string
  prediction_hours :: int
  volatility_factor :: real

text \<open>\<open>self.timeframe_configs\<close> and \<open>self.cache_duration\<close> (seconds).\<close>

definition timeframe_configs :: "string \<rightharpoonup> timeframe_config" where
  "timeframe_configs =
     [''1h'' \<mapsto> \<lparr> periods = 24, interval = ''1h'', prediction_hours = 1, volatility_factor = 1.0 \<rparr>,
      ''4h'' \<mapsto> \<lparr> periods = 24, interval = ''4h'', prediction_hours = 4, volatility_factor = 0.6 \<rparr>,
      ''1d'' \<mapsto> \<lparr> periods = 30, interval = ''1d'', prediction_hours = 24, volatility_factor = 0.4 \<rparr>,
      ''7d'' \<mapsto> \<lparr> periods = 12, interval = ''1w'', prediction_hours = 168, volatility_factor = 0.3 \<rparr>]"

definition cache_duration :: "string \<rightharpoonup> real" where
  "cache_duration =
     [''1h'' \<mapsto> 2 * 60, ''4h'' \<mapsto> 10 * 60, ''1d'' \<mapsto> 30 * 60, ''7d'' \<mapsto> 60 * 60]"

definition sequence_length :: nat where
  "sequence_length = 60"

definition feature_columns :: "string list" where
  "feature_columns =
     [''open'', ''high'', ''low'', ''close'', ''volume'',
      ''price_change'', ''high_low_ratio'', ''volume_change'',
      ''sma_20'', ''sma_50'', ''ema_12'', ''ema_26'', ''macd'', ''rsi'',
      ''bb_position'', ''volume_sma'', ''vwap'', ''volatility'']"

text \<open>
  The feature frame as far as \<open>_make_prediction\<close> looks into it: its column names and its
  \<open>close\<close> column.
\<close>

record features =
  f_columns :: "string list"
  f_close :: "real list"

text \<open>
  The prediction dictionary. \<open>prediction_change_percent\<close> divides by the current price;
  for a current price of zero numpy returns an infinity or NaN, which no real number
  stands for, and the field is \<open>None\<close>.
\<close>

record forecast =
  fc_current_price :: real
  fc_predicted_price :: real
  fc_prediction_change :: real
  fc_prediction_change_percent :: "real option"
  fc_confidence :: real
  fc_model_used :: string
  fc_features_used :: "string list"
  fc_timeframe :: string
  fc_volatility_dampening :: real

text \<open>
  The predictor's mutable dictionaries. A model maps the feature frame to its scaled
  output (scaling the last \<open>sequence_length\<close> rows, reshaping and running the network,
  any of which may raise); a scaler is read through its inverse transform on the
  \<open>close\<close> column. The cache holds, per key, the prediction and the time it was stored.
\<close>

record predictor =
  models :: "string \<rightharpoonup> (features \<Rightarrow> error + real)"
  scalers :: "string \<rightharpoonup> (real \<Rightarrow> real)"
  prediction_cache :: "string \<rightharpoonup> forecast \<times> real"

text \<open>\<open>f"{symbol}_{timeframe}"\<close>, the key of models, scalers and cache.\<close>

definition cache_key :: "string \<Rightarrow> string \<Rightarrow> string" where
  "cache_key symbol timeframe = symbol @ ''_'' @ timeframe"

text \<open>
  The dampened candidate price:
  \<open>raw_change = prediction_actual - current_price\<close>,
  \<open>dampened_change = raw_change * volatility_factor\<close>,
  \<open>prediction_actual = current_price + dampened_change\<close>.
\<close>

definition timeframe_volatility_factor :: "string \<Rightarrow> real" where
  "timeframe_volatility_factor timeframe =
     (case timeframe_configs timeframe of None \<Rightarrow> 1.0 | Some config \<Rightarrow> volatility_factor config)"

definition dampened_change :: "string \<Rightarrow> real \<Rightarrow> real" where
  "dampened_change timeframe raw_change = raw_change * timeframe_volatility_factor timeframe"

definition dampened_prediction :: "string \<Rightarrow> real \<Rightarrow> real \<Rightarrow> real" where
  "dampened_prediction timeframe current_price prediction_actual =
     (let raw_change = prediction_actual - current_price
      in current_price + dampened_change timeframe raw_change)"

text \<open>
  The smoothing against the cached prediction:
  \<open>smoothing_factor = 0.3 if timeframe == '1h' else 0.6 if timeframe == '4h' else 0.8\<close>,
  \<open>prediction_actual * (1 - smoothing_factor) + cached_price * smoothing_factor\<close>.
\<close>

definition smoothing_factor :: "string \<Rightarrow> real" where
  "smoothing_factor timeframe =
     (if timeframe = ''1h'' then 0.3 else if timeframe = ''4h'' then 0.6 else 0.8)"

definition smoothed_prediction :: "string \<Rightarrow> real \<Rightarrow> real \<Rightarrow> real" where
  "smoothed_prediction timeframe prediction_actual cached_price =
     prediction_actual * (1 - smoothing_factor timeframe) + cached_price * smoothing_factor timeframe"

text \<open>
  \<open>_make_prediction\<close> after the cache lookup has found nothing to return. \<open>now\<close> is
  \<open>current_time\<close> and \<open>base_confidence\<close> the value of
  \<open>_calculate_prediction_confidence\<close>. The model and the scaler are looked up by
  subscript, so a missing key raises \<open>KeyError\<close>; the last close of an empty frame raises
  \<open>IndexError\<close>. The result is stored in the cache with the time of the call.
\<close>

definition compute_prediction ::
  "predictor \<Rightarrow> real \<Rightarrow> real \<Rightarrow> string \<Rightarrow> string \<Rightarrow> features \<Rightarrow> (error + forecast) \<times> predictor" where
  "compute_prediction self now base_confidence symbol timeframe feats =
     (let model_key = cache_key symbol timeframe
      in case models self model_key of
           None \<Rightarrow> (Inl (KeyError model_key), self)
         | Some model \<Rightarrow>
        (case scalers self model_key of
           None \<Rightarrow> (Inl (KeyError model_key), self)
         | Some inverse_transform \<Rightarrow>
        (let available_columns = filter (\<lambda>col. col \<in> set (f_columns feats)) feature_columns
         in case model feats of
              Inl e \<Rightarrow> (Inl e, self)
            | Inr prediction_scaled \<Rightarrow>
           (if f_close feats = [] then (Inl (IndexError ''single positional indexer is out-of-bounds''), self)
            else
              let prediction_actual = inverse_transform prediction_scaled;
                  current_price = last (f_close feats);
                  prediction_actual = dampened_prediction timeframe current_price prediction_actual;
                  prediction_actual =
                    (case prediction_cache self (cache_key symbol timeframe) of
                       None \<Rightarrow> prediction_actual
                     | Some (cached_prediction, cached_at) \<Rightarrow>
                         smoothed_prediction timeframe prediction_actual
                           (fc_predicted_price cached_prediction));
                  prediction_change = prediction_actual - current_price;
                  prediction_change_percent =
                    (if current_price = 0 then None
                     else Some (prediction_change / current_price * 100));
                  conf = base_confidence;
                  conf = (if timeframe \<in> set [''4h'', ''1d'', ''7d'']
                          then min 0.95 (conf * 1.1) else conf);
                  result = \<lparr> fc_current_price = current_price,
                             fc_predicted_price = prediction_actual,
                             fc_prediction_change = prediction_change,
                             fc_prediction_change_percent = prediction_change_percent,
                             fc_confidence = conf,
                             fc_model_used = ''LSTM'',
                             fc_features_used = available_columns,
                             fc_timeframe = timeframe,
                             fc_volatility_dampening = timeframe_volatility_factor timeframe \<rparr>
              in (Inr result,
                  self\<lparr> prediction_cache :=
                          (prediction_cache self)(cache_key symbol timeframe \<mapsto> (result, now)) \<rparr>)))))"

text \<open>
  \<open>_make_prediction\<close>: a cached prediction younger than the timeframe's cache duration
  (300 seconds for a timeframe without one) is returned as it is; otherwise the
  prediction is computed.
\<close>

definition make_prediction ::
  "predictor \<Rightarrow> real \<Rightarrow> real \<Rightarrow> string \<Rightarrow> string \<Rightarrow> features \<Rightarrow> (error + forecast) \<times> predictor" where
  "make_prediction self now base_confidence symbol timeframe feats =
     (case prediction_cache self (cache_key symbol timeframe) of
        Some (cached_prediction, cache_time) \<Rightarrow>
          (let cache_age = now - cache_time
           in if cache_age < get_or cache_duration timeframe 300
              then (Inr cached_prediction, self)
              else compute_prediction self now base_confidence symbol timeframe feats)
      | None \<Rightarrow> compute_prediction self now base_confidence symbol timeframe feats)"

text \<open>
  \<open>_get_historical_data\<close> of the predictor, from the outcome of \<open>get_klines\<close>: no rows
  raise \<open>ValueError\<close>.
\<close>

definition pp_get_historical_data :: "string \<Rightarrow> error + kline list \<Rightarrow> error + kline list" where
  "pp_get_historical_data symbol fetched =
     (case fetched of
        Inl e \<Rightarrow> Inl e
      | Inr data \<Rightarrow>
          if data = [] then Inl (ValueError (''No data available for '' @ symbol))
          else Inr (sort_key k_openTime data))"

text \<open>
  What \<open>predict_price\<close> obtains from outside during one call: the candlesticks, the
  feature frame prepared from them, the model and scaler that \<open>_create_model\<close> trains
  when the key has none, the clock and the base confidence.
\<close>

record forecast_inputs =
  in_klines :: "error + kline list"
  in_features :: "error + features"
  in_trained :: "error + (features \<Rightarrow> error + real) \<times> (real \<Rightarrow> real)"
  in_now :: real
  in_base_confidence :: real

text \<open>\<open>predict_price\<close>\<close>

definition predict_price ::
  "predictor \<Rightarrow> string \<Rightarrow> string \<Rightarrow> forecast_inputs \<Rightarrow> (error + forecast) \<times> predictor" where
  "predict_price self symbol timeframe inputs =
     (if timeframe \<notin> dom timeframe_configs
      then (Inl (ValueError (''Unsupported timeframe: '' @ timeframe)), self)
      else case pp_get_historical_data symbol (in_klines inputs) of
             Inl e \<Rightarrow> (Inl e, self)
           | Inr historical_data \<Rightarrow>
          (if length historical_data < sequence_length
           then (Inl (ValueError (''Insufficient data for '' @ symbol @ ''. Need at least 60 periods.'')), self)
           else case in_features inputs of
                  Inl e \<Rightarrow> (Inl e, self)
                | Inr feats \<Rightarrow>
               (let model_key = cache_key symbol timeframe
                in if model_key \<in> dom (models self)
                   then make_prediction self (in_now inputs) (in_base_confidence inputs)
                          symbol timeframe feats
                   else case in_trained inputs of
                          Inl e \<Rightarrow> (Inl e, self)
                        | Inr (model, scaler) \<Rightarrow>
                            make_prediction
                              (self\<lparr> models := (models self)(model_key \<mapsto> model),
                                     scalers := (scalers self)(model_key \<mapsto> scaler) \<rparr>)
                              (in_now inputs) (in_base_confidence inputs)
                              symbol timeframe feats)))"

section \<open>Recommendation engine (recommendation\_engine.py)\<close>

subsection \<open>Data\<close>

record risk_config =
  min_confidence :: real
  max_position_size :: real
  stop_loss_percent :: real
  take_profit_percent :: real
  sentiment_weight :: real
  technical_weight :: real
  prediction_weight :: real

definition low_config :: risk_config where
  "low_config = \<lparr> min_confidence = 0.8, max_position_size = 0.1, stop_loss_percent = 0.05,
     take_profit_percent = 0.1, sentiment_weight = 0.2, technical_weight = 0.5,
     prediction_weight = 0.3 \<rparr>"

definition medium_config :: risk_config where
  "medium_config = \<lparr> min_confidence = 0.6, max_position_size = 0.2, stop_loss_percent = 0.08,
     take_profit_percent = 0.15, sentiment_weight = 0.3, technical_weight = 0.4,
     prediction_weight = 0.3 \<rparr>"

definition high_config :: risk_config where
  "high_config = \<lparr> min_confidence = 0.4, max_position_size = 0.3, stop_loss_percent = 0.12,
     take_profit_percent = 0.25, sentiment_weight = 0.4, technical_weight = 0.3,
     prediction_weight = 0.3 \<rparr>"

text \<open>\<open>self.risk_configs\<close>, looked up by the risk level's name.\<close>

definition risk_configs :: "string \<rightharpoonup> risk_config" where
  "risk_configs =
     [''low'' \<mapsto> low_config, ''medium'' \<mapsto> medium_config, ''high'' \<mapsto> high_config]"

text \<open>
  The engine reads the sentiment result (\<open>sentiment_data\<close>) and the technical analysis
  (\<open>technical_data\<close>) as the two services return them. Of the price prediction it reads
  the two keys below, both finite numbers here; \<open>pd_\<close> marks the current price and
  \<open>tk_\<close> a 24h ticker entry of the data fetcher.
\<close>

record prediction_data =
  pr_prediction_change_percent :: real
  pr_confidence :: real

record price_data =
  pd_symbol :: string
  pd_price :: real

record ticker_data =
  tk_symbol :: string
  tk_price :: real

text \<open>
  The five results of \<open>asyncio.gather(..., return_exceptions=True)\<close>: each task either
  returned its value or the exception it raised.
\<close>

record task_results =
  res_sentiment :: "error + sentiment_data"
  res_prediction :: "error + prediction_data"
  res_technical :: "error + technical_data"
  res_price :: "error + price_data"
  res_ticker :: "error + ticker_data list"

record analysis_data =
  sentiment :: "sentiment_data option"
  prediction :: "prediction_data option"
  technical :: "technical_data option"
  price :: "price_data option"
  ticker :: "ticker_data option"

record scores =
  sentiment_score :: real
  technical_score :: real
  prediction_score :: real
  overall_score :: real

text \<open>
  The recommendation dictionary. The two text fields \<open>reasoning\<close> and \<open>time_horizon\<close>
  are built by helpers that catch their own exceptions and only format text; they are
  left out of the record.
\<close>

record recommendation =
  action :: string
  confidence :: real
  target_price :: "real option"
  stop_loss :: "real option"
  rec_scores :: scores
  risk_reward_ratio :: "real option"

subsection \<open>Gathering\<close>

text \<open>\<open>results[i] if not isinstance(results[i], Exception) else None\<close>\<close>

definition unless_exception :: "error + 'a \<Rightarrow> 'a option" where
  "unless_exception r = (case r of Inl e \<Rightarrow> None | Inr v \<Rightarrow> Some v)"

text \<open>
  \<open>_gather_analysis_data\<close>. The ticker entry is \<open>ticker_data[0] if ticker_data else None\<close>:
  absent for a failed task and for an empty list. Nothing in the body raises, so the
  re-raising handler around it is never entered.
\<close>

definition gather_analysis_data :: "task_results \<Rightarrow> analysis_data" where
  "gather_analysis_data results =
     (let sentiment_data = unless_exception (res_sentiment results);
          prediction_data = unless_exception (res_prediction results);
          technical_data = unless_exception (res_technical results);
          price_data = unless_exception (res_price results);
          ticker_data = unless_exception (res_ticker results)
      in \<lparr> sentiment = sentiment_data,
           prediction = prediction_data,
           technical = technical_data,
           price = price_data,
           ticker = (case ticker_data of None \<Rightarrow> None | Some [] \<Rightarrow> None
                     | Some (t # ts) \<Rightarrow> Some t) \<rparr>)"

subsection \<open>Component scores\<close>

text \<open>
  \<open>_calculate_technical_score\<close>, statement by statement: \<open>score\<close> and \<open>factors\<close> are
  rebound as the Python variables are updated. The body reads two dictionaries and
  compares strings, so its handler (which would return \<open>0.0\<close>) is not entered.
\<close>

definition calculate_technical_score :: "technical_data \<Rightarrow> real" where
  "calculate_technical_score technical_data =
     (let signals = td_signals technical_data;
          score = (0::real);
          factors = (0::int);
          rsi_signal = get_or signals ''rsi'' ''neutral'';
          score = (if rsi_signal = ''oversold'' then score + 0.3
                   else if rsi_signal = ''overbought'' then score - 0.3
                   else score);
          factors = factors + 1;
          macd_signal = get_or signals ''macd'' ''neutral'';
          score = (if macd_signal = ''bullish'' then score + 0.2
                   else if macd_signal = ''bearish'' then score - 0.2
                   else score);
          factors = factors + 1;
          ma_trend = get_or signals ''ma_trend'' ''neutral'';
          score = (if ma_trend = ''strong_bullish'' then score + 0.4
                   else if ma_trend = ''weak_bullish'' then score + 0.2
                   else if ma_trend = ''weak_bearish'' then score - 0.2
                   else if ma_trend = ''strong_bearish'' then score - 0.4
                   else score);
          factors = factors + 1;
          bb_signal = get_or signals ''bollinger'' ''neutral'';
          score = (if bb_signal = ''oversold'' then score + 0.2
                   else if bb_signal = ''overbought'' then score - 0.2
                   else score);
          factors = factors + 1;
          trend_strength = get_or signals ''trend_strength'' ''weak'';
          trend = td_trend technical_data;
          score = (if trend = ''bullish'' \<and> trend_strength \<in> set [''strong'', ''very_strong'']
                   then score + 0.3
                   else if trend = ''bearish'' \<and> trend_strength \<in> set [''strong'', ''very_strong'']
                   then score - 0.3
                   else score);
          factors = factors + 1;
          volume_signal = get_or signals ''volume'' ''normal'';
          score = (if volume_signal = ''high'' \<and> score > 0 then score + 0.1
                   else if volume_signal = ''low'' \<and> score > 0 then score - 0.1
                   else score)
      in if factors > 0 then score / real_of_int factors else 0)"

text \<open>\<open>_calculate_prediction_score\<close>\<close>

definition calculate_prediction_score :: "prediction_data \<Rightarrow> real" where
  "calculate_prediction_score prediction_data =
     (let change_percent = pr_prediction_change_percent prediction_data;
          confidence = pr_confidence prediction_data;
          normalized_change = tanh (change_percent / 10)
      in normalized_change * confidence)"

text \<open>
  \<open>_calculate_recommendation_scores\<close>: every score starts at \<open>0.0\<close> and is overwritten
  only when its component is present (a result dictionary is never empty, so it is
  truthy whenever it is there).
\<close>

definition calculate_recommendation_scores :: "analysis_data \<Rightarrow> risk_config \<Rightarrow> scores" where
  "calculate_recommendation_scores analysis config =
     (let s_score = (case sentiment analysis of None \<Rightarrow> 0
                     | Some sd \<Rightarrow> sd_sentiment_score sd * sd_confidence sd);
          t_score = (case technical analysis of None \<Rightarrow> 0
                     | Some td \<Rightarrow> calculate_technical_score td);
          p_score = (case prediction analysis of None \<Rightarrow> 0
                     | Some pr \<Rightarrow> calculate_prediction_score pr)
      in \<lparr> sentiment_score = s_score,
           technical_score = t_score,
           prediction_score = p_score,
           overall_score = s_score * sentiment_weight config
                         + t_score * technical_weight config
                         + p_score * prediction_weight config \<rparr>)"

subsection \<open>Decision\<close>

text \<open>\<open>_calculate_risk_reward_ratio\<close>\<close>

definition calculate_risk_reward_ratio :: "real \<Rightarrow> real \<Rightarrow> real \<Rightarrow> real option" where
  "calculate_risk_reward_ratio current_price target stop =
     (if \<not> (current_price \<noteq> 0 \<and> target \<noteq> 0 \<and> stop \<noteq> 0) then None
      else let potential_reward = \<bar>target - current_price\<bar>;
               potential_risk = \<bar>current_price - stop\<bar>
           in if potential_risk = 0 then None else Some (potential_reward / potential_risk))"

text \<open>
  \<open>_generate_final_recommendation\<close>. The confidence floor rebinds \<open>action\<close> first
  and \<open>confidence\<close> second, both on the confidence computed before; target and stop-loss
  are set together by the same \<open>if\<close>/\<open>elif\<close>, which takes a current price of \<open>None\<close>
  or \<open>0.0\<close> as missing. No statement of the body raises, so the handler's fallback
  dictionary is never returned.
\<close>

definition generate_final_recommendation ::
  "string \<Rightarrow> analysis_data \<Rightarrow> scores \<Rightarrow> risk_config \<Rightarrow> recommendation" where
  "generate_final_recommendation symbol analysis sc config =
     (let overall = overall_score sc;
          act = (if overall > 0.3 then ''buy''
                 else if overall < - 0.3 then ''sell''
                 else ''hold'');
          conf = min 0.95 (\<bar>overall\<bar> + 0.1);
          act = (if conf < min_confidence config then ''hold'' else act);
          conf = (if conf < min_confidence config then 0.5 else conf);
          current_price = (case price analysis of None \<Rightarrow> None | Some p \<Rightarrow> Some (pd_price p));
          target =
             (if act = ''buy'' \<and> truthy current_price
              then Some (the current_price * (1 + take_profit_percent config))
              else if act = ''sell'' \<and> truthy current_price
              then Some (the current_price * (1 - take_profit_percent config))
              else None);
          stop =
             (if act = ''buy'' \<and> truthy current_price
              then Some (the current_price * (1 - stop_loss_percent config))
              else if act = ''sell'' \<and> truthy current_price
              then Some (the current_price * (1 + stop_loss_percent config))
              else None)
      in \<lparr> action = act,
           confidence = conf,
           target_price = target,
           stop_loss = stop,
           rec_scores = sc,
           risk_reward_ratio =
             (if truthy current_price \<and> truthy target \<and> truthy stop
              then calculate_risk_reward_ratio (the current_price) (the target) (the stop)
              else None) \<rparr>)"

text \<open>
  \<open>generate_recommendation\<close>, from the results of the five gathered tasks. An unknown
  risk level is the only exception raised.
\<close>

definition generate_recommendation :: "string \<Rightarrow> string \<Rightarrow> task_results \<Rightarrow> error + recommendation" where
  "generate_recommendation symbol risk_level results =
     (case risk_configs risk_level of
        None \<Rightarrow> Inl (ValueError (''Invalid risk level: '' @ risk_level))
      | Some config \<Rightarrow>
          (let analysis = gather_analysis_data results;
               sc = calculate_recommendation_scores analysis config
           in Inr (generate_final_recommendation symbol analysis sc config)))"

subsection \<open>The technical score as the specification words it\<close>








subsection \<open>Example inputs\<close>

text \<open>
  A predictor holding a model and a scaler for \<open>BTCUSDT_1d\<close> and a prediction cached at
  time \<open>1000\<close>; the model's scaled output \<open>0.6\<close> is \<open>120\<close> as a price.
\<close>

definition example_model :: "features \<Rightarrow> error + real" where
  "example_model feats = Inr 0.6"

definition example_scaler :: "real \<Rightarrow> real" where
  "example_scaler x = 200 * x"

definition example_features :: features where
  "example_features =
     \<lparr> f_columns = [''open'', ''high'', ''low'', ''close'', ''volume''], f_close = [99, 100] \<rparr>"

definition example_forecast :: forecast where
  "example_forecast =
     \<lparr> fc_current_price = 100, fc_predicted_price = 104, fc_prediction_change = 4,
       fc_prediction_change_percent = Some 4, fc_confidence = 0.88, fc_model_used = ''LSTM'',
       fc_features_used = [''open'', ''high'', ''low'', ''close'', ''volume''],
       fc_timeframe = ''1d'', fc_volatility_dampening = 0.4 \<rparr>"

definition fresh_predictor :: predictor where
  "fresh_predictor =
     \<lparr> models = [''BTCUSDT_1d'' \<mapsto> example_model],
       scalers = [''BTCUSDT_1d'' \<mapsto> example_scaler],
       prediction_cache = Map.empty \<rparr>"

definition example_predictor :: predictor where
  "example_predictor =
     fresh_predictor \<lparr> prediction_cache := [''BTCUSDT_1d'' \<mapsto> (example_forecast, 1000)] \<rparr>"

definition example_kline :: kline where
  "example_kline =
     \<lparr> k_openTime = 0, k_open = 100, k_high = 101, k_low = 99, k_close = 100, k_volume = 5 \<rparr>"

definition example_inputs :: forecast_inputs where
  "example_inputs =
     \<lparr> in_klines = Inr (replicate 60 example_kline),
       in_features = Inr example_features,
       in_trained = Inl (PyException ''not trained''),
       in_now = 1600,
       in_base_confidence = 0.8 \<rparr>"

text \<open>Four scored texts: one positive, two neutral, one negative.\<close>

definition example_scores :: "text_sentiment list" where
  "example_scores =
     [\<lparr> compound = 0.6, positive = 0.5, negative = 0, neutral = 0.5 \<rparr>,
      \<lparr> compound = 0, positive = 0, negative = 0, neutral = 1 \<rparr>,
      \<lparr> compound = 0, positive = 0, negative = 0, neutral = 1 \<rparr>,
      \<lparr> compound = - 0.2, positive = 0, negative = 0.3, neutral = 0.7 \<rparr>]"



section \<open>Properties of the sentiment analyzer\<close>

lemma neutral_count_by_difference:
  "int (length xs) - count_if (\<lambda>score. score \<ge> 0.05) xs - count_if (\<lambda>score. score \<le> - 0.05) xs
     = count_if (\<lambda>score::real. - 0.05 < score \<and> score < 0.05) xs"
  unfolding count_if_def by (induction xs) auto

lemma np_std_nonneg: "0 \<le> np_std xs"
proof -
  have "0 \<le> sum_list (map (\<lambda>x. \<bar>x - np_mean xs\<bar> ^ 2) xs)"
    by (rule sum_list_nonneg) auto
  then have "0 \<le> np_mean (map (\<lambda>x. \<bar>x - np_mean xs\<bar> ^ 2) xs)"
    by (simp add: np_mean_def)
  then show ?thesis by (simp add: np_std_def)
qed

lemma np_std_square:
  "(np_std xs) ^ 2 = sum_list (map (\<lambda>x. (x - np_mean xs) ^ 2) xs) / real (length xs)"
proof -
  have "0 \<le> sum_list (map (\<lambda>x. \<bar>x - np_mean xs\<bar> ^ 2) xs)"
    by (rule sum_list_nonneg) auto
  then have "0 \<le> np_mean (map (\<lambda>x. \<bar>x - np_mean xs\<bar> ^ 2) xs)"
    by (simp add: np_mean_def)
  then show ?thesis by (simp add: np_std_def np_mean_def)
qed

text \<open>
  Claim C7. For no scored texts the aggregation is the neutral record with score \<open>0\<close>,
  confidence \<open>0\<close> and zero counts, and so is the analysis when no texts were fetched.
  Otherwise the score is the mean of the compound scores; the confidence is
  \<open>max(0, 1 - std/2)\<close>, where \<open>std\<close> is the non-negative root of the mean squared
  deviation from the score, and lies in \<open>[0, 1]\<close>; the label is positive exactly from
  \<open>0.05\<close> up, negative exactly from \<open>-0.05\<close> down and neutral in between; and the three
  counts are the numbers of compound scores in the same three ranges. The aggregation
  is a total function: it returns a record for every list.
\<close>

theorem sentiment_aggregation:
  "aggregate_sentiment_results [] =
     \<lparr> sd_sentiment_score = 0, sd_sentiment_label = ''neutral'', sd_confidence = 0,
       sd_analysis_details = \<lparr> positive_count = 0, negative_count = 0, neutral_count = 0 \<rparr> \<rparr>
   \<and> analyze_sentiment score_text sources [] [] =
     \<lparr> sd_sentiment_score = 0, sd_sentiment_label = ''neutral'', sd_confidence = 0,
       sd_analysis_details = \<lparr> positive_count = 0, negative_count = 0, neutral_count = 0 \<rparr>,
       sd_sources_analyzed = 0, sd_source_breakdown = \<lparr> news = 0, social = 0 \<rparr> \<rparr>
   \<and> (results \<noteq> [] \<longrightarrow>
        (let xs = map compound results;
             r = aggregate_sentiment_results results;
             d = sd_analysis_details r
         in sd_sentiment_score r = sum_list xs / real (length xs)
          \<and> sd_confidence r = max 0 (1 - np_std xs / 2)
          \<and> 0 \<le> np_std xs
          \<and> (np_std xs) ^ 2
              = sum_list (map (\<lambda>x. (x - sd_sentiment_score r) ^ 2) xs) / real (length xs)
          \<and> 0 \<le> sd_confidence r \<and> sd_confidence r \<le> 1
          \<and> (sd_sentiment_label r = ''positive'') = (sd_sentiment_score r \<ge> 0.05)
          \<and> (sd_sentiment_label r = ''negative'') = (sd_sentiment_score r \<le> - 0.05)
          \<and> (sd_sentiment_label r = ''neutral'')
              = (- 0.05 < sd_sentiment_score r \<and> sd_sentiment_score r < 0.05)
          \<and> positive_count d = int (length (filter (\<lambda>x. x \<ge> 0.05) xs))
          \<and> negative_count d = int (length (filter (\<lambda>x. x \<le> - 0.05) xs))
          \<and> neutral_count d = int (length (filter (\<lambda>x. - 0.05 < x \<and> x < 0.05) xs))))"
proof -
  have e: "aggregate_sentiment_results [] =
     \<lparr> sd_sentiment_score = 0, sd_sentiment_label = ''neutral'', sd_confidence = 0,
       sd_analysis_details = \<lparr> positive_count = 0, negative_count = 0, neutral_count = 0 \<rparr> \<rparr>"
    by (simp add: aggregate_sentiment_results_def)
  have a: "analyze_sentiment score_text sources [] [] =
     \<lparr> sd_sentiment_score = 0, sd_sentiment_label = ''neutral'', sd_confidence = 0,
       sd_analysis_details = \<lparr> positive_count = 0, negative_count = 0, neutral_count = 0 \<rparr>,
       sd_sources_analyzed = 0, sd_source_breakdown = \<lparr> news = 0, social = 0 \<rparr> \<rparr>"
    by (simp add: analyze_sentiment_def)
  have n: "results \<noteq> [] \<longrightarrow>
        (let xs = map compound results;
             r = aggregate_sentiment_results results;
             d = sd_analysis_details r
         in sd_sentiment_score r = sum_list xs / real (length xs)
          \<and> sd_confidence r = max 0 (1 - np_std xs / 2)
          \<and> 0 \<le> np_std xs
          \<and> (np_std xs) ^ 2
              = sum_list (map (\<lambda>x. (x - sd_sentiment_score r) ^ 2) xs) / real (length xs)
          \<and> 0 \<le> sd_confidence r \<and> sd_confidence r \<le> 1
          \<and> (sd_sentiment_label r = ''positive'') = (sd_sentiment_score r \<ge> 0.05)
          \<and> (sd_sentiment_label r = ''negative'') = (sd_sentiment_score r \<le> - 0.05)
          \<and> (sd_sentiment_label r = ''neutral'')
              = (- 0.05 < sd_sentiment_score r \<and> sd_sentiment_score r < 0.05)
          \<and> positive_count d = int (length (filter (\<lambda>x. x \<ge> 0.05) xs))
          \<and> negative_count d = int (length (filter (\<lambda>x. x \<le> - 0.05) xs))
          \<and> neutral_count d = int (length (filter (\<lambda>x. - 0.05 < x \<and> x < 0.05) xs)))"
  proof
    assume ne: "results \<noteq> []"
    let ?xs = "map compound results"
    let ?r = "aggregate_sentiment_results results"
    have s: "sd_sentiment_score ?r = np_mean ?xs"
      using ne by (simp add: aggregate_sentiment_results_def Let_def)
    have c: "sd_confidence ?r = max 0 (1 - np_std ?xs / 2)"
      using ne by (simp add: aggregate_sentiment_results_def Let_def)
    have l: "sd_sentiment_label ?r =
        (if np_mean ?xs \<ge> 0.05 then ''positive''
         else if np_mean ?xs \<le> - 0.05 then ''negative'' else ''neutral'')"
      using ne by (simp add: aggregate_sentiment_results_def Let_def)
    have p: "positive_count (sd_analysis_details ?r) = count_if (\<lambda>x. x \<ge> 0.05) ?xs"
      using ne unfolding aggregate_sentiment_results_def Let_def
      by (simp only: if_False aggregated_sentiment.simps analysis_details.simps)
    have g: "negative_count (sd_analysis_details ?r) = count_if (\<lambda>x. x \<le> - 0.05) ?xs"
      using ne unfolding aggregate_sentiment_results_def Let_def
      by (simp only: if_False aggregated_sentiment.simps analysis_details.simps)
    have u: "neutral_count (sd_analysis_details ?r) =
        int (length ?xs) - count_if (\<lambda>x. x \<ge> 0.05) ?xs - count_if (\<lambda>x. x \<le> - 0.05) ?xs"
      using ne unfolding aggregate_sentiment_results_def Let_def
      by (simp only: if_False aggregated_sentiment.simps analysis_details.simps)
    have b: "0 \<le> sd_confidence ?r \<and> sd_confidence ?r \<le> 1"
      unfolding c using np_std_nonneg [of ?xs] by simp
    have l1: "(sd_sentiment_label ?r = ''positive'') = (sd_sentiment_score ?r \<ge> 0.05)"
      unfolding l s by simp
    have l2: "(sd_sentiment_label ?r = ''negative'') = (sd_sentiment_score ?r \<le> - 0.05)"
      unfolding l s by simp
    have l3: "(sd_sentiment_label ?r = ''neutral'')
              = (- 0.05 < sd_sentiment_score ?r \<and> sd_sentiment_score ?r < 0.05)"
      unfolding l s by auto
    have v: "(np_std ?xs) ^ 2
              = sum_list (map (\<lambda>x. (x - sd_sentiment_score ?r) ^ 2) ?xs) / real (length ?xs)"
      unfolding s by (rule np_std_square)
    have u': "neutral_count (sd_analysis_details ?r)
        = int (length (filter (\<lambda>x. - 0.05 < x \<and> x < 0.05) ?xs))"
      unfolding u neutral_count_by_difference by (simp add: count_if_def)
    have s': "sd_sentiment_score ?r = sum_list ?xs / real (length ?xs)"
      unfolding s by (simp add: np_mean_def)
    from s' c np_std_nonneg [of ?xs] v b l1 l2 l3 p g u'
    show "let xs = map compound results;
             r = aggregate_sentiment_results results;
             d = sd_analysis_details r
         in sd_sentiment_score r = sum_list xs / real (length xs)
          \<and> sd_confidence r = max 0 (1 - np_std xs / 2)
          \<and> 0 \<le> np_std xs
          \<and> (np_std xs) ^ 2
              = sum_list (map (\<lambda>x. (x - sd_sentiment_score r) ^ 2) xs) / real (length xs)
          \<and> 0 \<le> sd_confidence r \<and> sd_confidence r \<le> 1
          \<and> (sd_sentiment_label r = ''positive'') = (sd_sentiment_score r \<ge> 0.05)
          \<and> (sd_sentiment_label r = ''negative'') = (sd_sentiment_score r \<le> - 0.05)
          \<and> (sd_sentiment_label r = ''neutral'')
              = (- 0.05 < sd_sentiment_score r \<and> sd_sentiment_score r < 0.05)
          \<and> positive_count d = int (length (filter (\<lambda>x. x \<ge> 0.05) xs))
          \<and> negative_count d = int (length (filter (\<lambda>x. x \<le> - 0.05) xs))
          \<and> neutral_count d = int (length (filter (\<lambda>x. - 0.05 < x \<and> x < 0.05) xs))"
      unfolding Let_def count_if_def by blast
  qed
  from e a n show ?thesis by blast
qed

lemma example_compounds: "map compound example_scores = [0.6, 0, 0, - 0.2]"
  by (simp add: example_scores_def)

theorem sentiment_aggregation_witness:
  "example_scores \<noteq> []
   \<and> sd_sentiment_score (aggregate_sentiment_results example_scores) = 0.1
   \<and> sd_confidence (aggregate_sentiment_results example_scores) = 0.85
   \<and> sd_sentiment_label (aggregate_sentiment_results example_scores) = ''positive''
   \<and> sd_analysis_details (aggregate_sentiment_results example_scores)
       = \<lparr> positive_count = 1, negative_count = 1, neutral_count = 2 \<rparr>"
proof -
  let ?r = "aggregate_sentiment_results example_scores"
  have ne: "example_scores \<noteq> []" by (simp add: example_scores_def)
  note th = sentiment_aggregation [where results = example_scores, unfolded Let_def example_compounds]
  from th ne have s: "sd_sentiment_score ?r = sum_list [0.6, 0, 0, - 0.2] / real (length [0.6, 0, 0, - 0.2 :: real])"
    by blast
  then have s': "sd_sentiment_score ?r = 0.1" by simp
  from th ne have nn: "0 \<le> np_std [0.6, 0, 0, - 0.2]" by blast
  from th ne have "(np_std [0.6, 0, 0, - 0.2]) ^ 2
      = sum_list (map (\<lambda>x. (x - sd_sentiment_score ?r) ^ 2) [0.6, 0, 0, - 0.2])
          / real (length [0.6, 0, 0, - 0.2 :: real])"
    by blast
  then have "(np_std [0.6, 0, 0, - 0.2]) ^ 2 = 0.3 ^ 2"
    unfolding s' by (simp add: power2_eq_square)
  with nn have sd: "np_std [0.6, 0, 0, - 0.2] = 0.3"
    by (simp add: power2_eq_iff_nonneg)
  from th ne have "sd_confidence ?r = max 0 (1 - np_std [0.6, 0, 0, - 0.2] / 2)" by blast
  then have c: "sd_confidence ?r = 0.85" unfolding sd by simp
  from th ne have "(sd_sentiment_label ?r = ''positive'') = (sd_sentiment_score ?r \<ge> 0.05)" by blast
  then have l: "sd_sentiment_label ?r = ''positive''" unfolding s' by simp
  from th ne have "positive_count (sd_analysis_details ?r) = int (length (filter (\<lambda>x. x \<ge> 0.05) [0.6, 0, 0, - 0.2 :: real]))"
    "negative_count (sd_analysis_details ?r) = int (length (filter (\<lambda>x. x \<le> - 0.05) [0.6, 0, 0, - 0.2 :: real]))"
    "neutral_count (sd_analysis_details ?r) = int (length (filter (\<lambda>x. - 0.05 < x \<and> x < 0.05) [0.6, 0, 0, - 0.2 :: real]))"
    by blast+
  then have d: "sd_analysis_details ?r = \<lparr> positive_count = 1, negative_count = 1, neutral_count = 2 \<rparr>"
    by (cases "sd_analysis_details ?r") simp
  from ne s' c l d show ?thesis by blast
qed

section \<open>Properties of the technical analyzer\<close>

subsection \<open>Support and resistance\<close>





text \<open>
  From fifty candlesticks on, the levels in the result of \<open>analyze\<close> are those of
  \<open>_find_support_resistance\<close> on the sorted frame with the default window of 20.
\<close>

lemma analyze_levels:
  assumes "50 \<le> length klines"
  shows "map_sum id td_support_levels (analyze symbol (Inr klines) computed)
           = Inr (fst (find_support_resistance (sort_key k_openTime klines) 20))"
    and "map_sum id td_resistance_levels (analyze symbol (Inr klines) computed)
           = Inr (snd (find_support_resistance (sort_key k_openTime klines) 20))"
proof -
  from assms have "klines \<noteq> []" by auto
  with assms show
    "map_sum id td_support_levels (analyze symbol (Inr klines) computed)
           = Inr (fst (find_support_resistance (sort_key k_openTime klines) 20))"
    "map_sum id td_resistance_levels (analyze symbol (Inr klines) computed)
           = Inr (snd (find_support_resistance (sort_key k_openTime klines) 20))"
    by (simp_all add: analyze_def ta_get_historical_data_def Let_def)
qed



subsection \<open>Minimum history\<close>

lemma analyze_short_history:
  assumes "klines \<noteq> []" and "length klines < 50"
  shows "analyze symbol (Inr klines) computed
           = Inl (ValueError (''Insufficient data for technical analysis of '' @ symbol))"
  using assms by (simp add: analyze_def ta_get_historical_data_def)

lemma analyze_enough_history:
  assumes "50 \<le> length klines"
  shows "\<exists>r. analyze symbol (Inr klines) computed = Inr r
             \<and> td_indicators r = calculate_indicators computed"
proof -
  from assms have "klines \<noteq> []" by auto
  with assms show ?thesis
    by (simp add: analyze_def ta_get_historical_data_def Let_def)
qed

text \<open>
  Claim C9 at the empty history: the frame built from no candlesticks has no
  \<open>openTime\<close> column, so \<open>analyze\<close> raises \<open>KeyError\<close> before it compares the length
  with 50; the predictor's \<open>_get_historical_data\<close> raises \<open>ValueError\<close> for the same
  input. (For one to forty-nine rows \<open>analyze\<close> raises the \<open>ValueError\<close> for insufficient
  data, and from fifty rows on it returns, by the two lemmas above.)
\<close>

theorem analyze_empty_history:
  "analyze symbol (Inr []) computed = Inl (KeyError ''openTime'')
   \<and> pp_get_historical_data symbol (Inr []) = Inl (ValueError (''No data available for '' @ symbol))"
  by (simp add: analyze_def ta_get_historical_data_def pp_get_historical_data_def)

section \<open>Properties of the price predictor\<close>

lemma volatility_factors:
  "timeframe_volatility_factor ''1h'' = 1.0" "timeframe_volatility_factor ''4h'' = 0.6"
  "timeframe_volatility_factor ''1d'' = 0.4" "timeframe_volatility_factor ''7d'' = 0.3"
  by (simp_all add: timeframe_volatility_factor_def timeframe_configs_def)

lemma cache_durations:
  "get_or cache_duration ''1h'' 300 = 2 * 60" "get_or cache_duration ''4h'' 300 = 10 * 60"
  "get_or cache_duration ''1d'' 300 = 30 * 60" "get_or cache_duration ''7d'' 300 = 60 * 60"
  by (simp_all add: get_or_def cache_duration_def)




lemma make_prediction_hit:
  assumes "prediction_cache self (cache_key symbol tf) = Some (cached, t)"
    and "now - t < get_or cache_duration tf 300"
  shows "make_prediction self now bc symbol tf feats = (Inr cached, self)"
  using assms by (simp add: make_prediction_def Let_def)

lemma compute_prediction_success:
  assumes "models self (cache_key symbol tf) = Some model"
    and "scalers self (cache_key symbol tf) = Some inverse_transform"
    and "model feats = Inr p"
    and "f_close feats \<noteq> []"
  shows "\<exists>r. compute_prediction self now bc symbol tf feats
           = (Inr r, self\<lparr> prediction_cache := (prediction_cache self)(cache_key symbol tf \<mapsto> (r, now)) \<rparr>)
         \<and> fc_current_price r = last (f_close feats)
         \<and> fc_predicted_price r =
             (case prediction_cache self (cache_key symbol tf) of
                None \<Rightarrow> dampened_prediction tf (last (f_close feats)) (inverse_transform p)
              | Some (c, t) \<Rightarrow>
                  smoothed_prediction tf (dampened_prediction tf (last (f_close feats)) (inverse_transform p))
                    (fc_predicted_price c))"
  using assms by (simp add: compute_prediction_def Let_def split: option.splits)

lemma compute_prediction_stores:
  assumes "compute_prediction self now bc symbol tf feats = (Inr r, self')"
  shows "self' = self\<lparr> prediction_cache := (prediction_cache self)(cache_key symbol tf \<mapsto> (r, now)) \<rparr>"
  using assms
  by (auto simp add: compute_prediction_def Let_def split: option.splits sum.splits if_splits)

lemma make_prediction_cached_after:
  assumes "make_prediction self now bc symbol tf feats = (Inr r, self')"
  shows "\<exists>t. prediction_cache self' (cache_key symbol tf) = Some (r, t)
           \<and> (t = now \<or> (self' = self \<and> now - t < get_or cache_duration tf 300))"
proof (cases "prediction_cache self (cache_key symbol tf)")
  case None
  with assms have "compute_prediction self now bc symbol tf feats = (Inr r, self')"
    by (simp add: make_prediction_def)
  from compute_prediction_stores [OF this] show ?thesis by simp
next
  case (Some ct)
  obtain c t where ct: "ct = (c, t)" by (cases ct)
  show ?thesis
  proof (cases "now - t < get_or cache_duration tf 300")
    case True
    with Some ct assms have "r = c" "self' = self"
      by (simp_all add: make_prediction_def Let_def)
    with Some ct True show ?thesis by simp
  next
    case False
    with Some ct assms have "compute_prediction self now bc symbol tf feats = (Inr r, self')"
      by (simp add: make_prediction_def Let_def)
    from compute_prediction_stores [OF this] show ?thesis by simp
  qed
qed

lemma make_prediction_miss:
  assumes "prediction_cache self (cache_key symbol tf) = None
           \<or> (\<exists>c t. prediction_cache self (cache_key symbol tf) = Some (c, t)
                      \<and> \<not> now - t < get_or cache_duration tf 300)"
  shows "make_prediction self now bc symbol tf feats = compute_prediction self now bc symbol tf feats"
  using assms by (auto simp add: make_prediction_def Let_def)

lemma example_key: "cache_key ''BTCUSDT'' ''1d'' = ''BTCUSDT_1d''"
  by (simp add: cache_key_def)

lemma example_cached:
  "prediction_cache example_predictor (cache_key ''BTCUSDT'' ''1d'') = Some (example_forecast, 1000)"
  by (simp add: example_predictor_def example_key)

lemma example_models:
  "models example_predictor (cache_key ''BTCUSDT'' ''1d'') = Some example_model"
  "scalers example_predictor (cache_key ''BTCUSDT'' ''1d'') = Some example_scaler"
  "models fresh_predictor (cache_key ''BTCUSDT'' ''1d'') = Some example_model"
  "scalers fresh_predictor (cache_key ''BTCUSDT'' ''1d'') = Some example_scaler"
  "prediction_cache fresh_predictor (cache_key ''BTCUSDT'' ''1d'') = None"
  by (simp_all add: example_predictor_def fresh_predictor_def example_key)

text \<open>
  Claim C4. A cached prediction for the key whose age is below the timeframe's cache
  duration (2, 10, 30 and 60 minutes for \<open>1h\<close>, \<open>4h\<close>, \<open>1d\<close> and \<open>7d\<close>) is
  returned as it is and the predictor is left as it was. Whatever a call returns is in
  the cache afterwards, with the time of the call when it was computed, and every later
  call for the key within the cache duration of that time returns the same record.
  \<open>predict_price\<close> reaches the cache lookup once the timeframe is known, the history
  has at least \<open>sequence_length\<close> rows, the features are prepared and the key has a
  model, and then returns the cached record too.
\<close>

theorem forecast_cache_idempotent:
  "(prediction_cache self (cache_key symbol tf) = Some (cached, t)
      \<and> now - t < get_or cache_duration tf 300
      \<longrightarrow> make_prediction self now bc symbol tf feats = (Inr cached, self))
   \<and> get_or cache_duration ''1h'' 300 = 2 * 60
   \<and> get_or cache_duration ''4h'' 300 = 10 * 60
   \<and> get_or cache_duration ''1d'' 300 = 30 * 60
   \<and> get_or cache_duration ''7d'' 300 = 60 * 60
   \<and> (make_prediction self t1 bc1 symbol tf f1 = (Inr r1, self1)
      \<longrightarrow> (\<exists>s. prediction_cache self1 (cache_key symbol tf) = Some (r1, s)
             \<and> (s = t1 \<or> self1 = self)
             \<and> (\<forall>t2 bc2 f2. t2 - s < get_or cache_duration tf 300
                   \<longrightarrow> make_prediction self1 t2 bc2 symbol tf f2 = (Inr r1, self1))))
   \<and> (tf \<in> dom timeframe_configs
      \<and> in_klines inputs = Inr ks \<and> sequence_length \<le> length ks
      \<and> in_features inputs = Inr feats
      \<and> cache_key symbol tf \<in> dom (models self)
      \<and> prediction_cache self (cache_key symbol tf) = Some (cached, t)
      \<and> in_now inputs - t < get_or cache_duration tf 300
      \<longrightarrow> predict_price self symbol tf inputs = (Inr cached, self))"
proof -
  have a: "prediction_cache self (cache_key symbol tf) = Some (cached, t)
      \<and> now - t < get_or cache_duration tf 300
      \<longrightarrow> make_prediction self now bc symbol tf feats = (Inr cached, self)"
    using make_prediction_hit by blast
  have b: "make_prediction self t1 bc1 symbol tf f1 = (Inr r1, self1)
      \<longrightarrow> (\<exists>s. prediction_cache self1 (cache_key symbol tf) = Some (r1, s)
             \<and> (s = t1 \<or> self1 = self)
             \<and> (\<forall>t2 bc2 f2. t2 - s < get_or cache_duration tf 300
                   \<longrightarrow> make_prediction self1 t2 bc2 symbol tf f2 = (Inr r1, self1)))"
  proof
    assume "make_prediction self t1 bc1 symbol tf f1 = (Inr r1, self1)"
    from make_prediction_cached_after [OF this]
    obtain s where s: "prediction_cache self1 (cache_key symbol tf) = Some (r1, s)"
      and d: "s = t1 \<or> self1 = self" by blast
    have "\<forall>t2 bc2 f2. t2 - s < get_or cache_duration tf 300
            \<longrightarrow> make_prediction self1 t2 bc2 symbol tf f2 = (Inr r1, self1)"
      using make_prediction_hit [OF s] by blast
    with s d show "\<exists>s. prediction_cache self1 (cache_key symbol tf) = Some (r1, s)
             \<and> (s = t1 \<or> self1 = self)
             \<and> (\<forall>t2 bc2 f2. t2 - s < get_or cache_duration tf 300
                   \<longrightarrow> make_prediction self1 t2 bc2 symbol tf f2 = (Inr r1, self1))"
      by blast
  qed
  have c: "tf \<in> dom timeframe_configs
      \<and> in_klines inputs = Inr ks \<and> sequence_length \<le> length ks
      \<and> in_features inputs = Inr feats
      \<and> cache_key symbol tf \<in> dom (models self)
      \<and> prediction_cache self (cache_key symbol tf) = Some (cached, t)
      \<and> in_now inputs - t < get_or cache_duration tf 300
      \<longrightarrow> predict_price self symbol tf inputs = (Inr cached, self)"
  proof
    assume h: "tf \<in> dom timeframe_configs
      \<and> in_klines inputs = Inr ks \<and> sequence_length \<le> length ks
      \<and> in_features inputs = Inr feats
      \<and> cache_key symbol tf \<in> dom (models self)
      \<and> prediction_cache self (cache_key symbol tf) = Some (cached, t)
      \<and> in_now inputs - t < get_or cache_duration tf 300"
    then have ne: "ks \<noteq> []" by (auto simp: sequence_length_def)
    from h have hit: "make_prediction self (in_now inputs) (in_base_confidence inputs) symbol tf feats
        = (Inr cached, self)"
      using make_prediction_hit by blast
    from h ne have g: "pp_get_historical_data symbol (in_klines inputs) = Inr (sort_key k_openTime ks)"
      by (simp add: pp_get_historical_data_def)
    from h have l: "\<not> length (sort_key k_openTime ks) < sequence_length" by simp
    show "predict_price self symbol tf inputs = (Inr cached, self)"
      unfolding predict_price_def g using h l hit by (simp add: Let_def)
  qed
  from a b c cache_durations show ?thesis by blast
qed

theorem forecast_cache_idempotent_witness:
  "prediction_cache example_predictor (cache_key ''BTCUSDT'' ''1d'') = Some (example_forecast, 1000)
   \<and> 1600 - 1000 < get_or cache_duration ''1d'' 300
   \<and> make_prediction example_predictor 1600 0.8 ''BTCUSDT'' ''1d'' example_features
        = (Inr example_forecast, example_predictor)
   \<and> make_prediction example_predictor 1700 0.5 ''BTCUSDT'' ''1d'' (example_features\<lparr>f_close := [1]\<rparr>)
        = (Inr example_forecast, example_predictor)
   \<and> ''1d'' \<in> dom timeframe_configs
   \<and> sequence_length \<le> length (replicate 60 example_kline)
   \<and> cache_key ''BTCUSDT'' ''1d'' \<in> dom (models example_predictor)
   \<and> predict_price example_predictor ''BTCUSDT'' ''1d'' example_inputs
        = (Inr example_forecast, example_predictor)"
proof -
  note th = forecast_cache_idempotent
    [where self = example_predictor and symbol = "''BTCUSDT''" and tf = "''1d''"
       and cached = example_forecast and t = 1000 and now = 1600 and bc = "0.8"
       and feats = example_features and ?t1.0 = 1600 and ?bc1.0 = "0.8" and ?f1.0 = example_features
       and ?r1.0 = example_forecast and ?self1.0 = example_predictor
       and inputs = example_inputs and ks = "replicate 60 example_kline"]
  have w: "(1600::real) - 1000 < get_or cache_duration ''1d'' 300"
    by (simp add: get_or_def cache_duration_def)
  from th example_cached w
  have first: "make_prediction example_predictor 1600 0.8 ''BTCUSDT'' ''1d'' example_features
        = (Inr example_forecast, example_predictor)"
    by blast
  with th obtain s where
    s: "prediction_cache example_predictor (cache_key ''BTCUSDT'' ''1d'') = Some (example_forecast, s)"
    and again: "\<forall>t2 bc2 f2. t2 - s < get_or cache_duration ''1d'' 300
        \<longrightarrow> make_prediction example_predictor t2 bc2 ''BTCUSDT'' ''1d'' f2
              = (Inr example_forecast, example_predictor)"
    by blast
  from s example_cached have "s = 1000" by simp
  with again have second: "make_prediction example_predictor 1700 0.5 ''BTCUSDT'' ''1d'' (example_features\<lparr>f_close := [1]\<rparr>)
        = (Inr example_forecast, example_predictor)"
    by (simp add: get_or_def cache_duration_def)
  have d: "''1d'' \<in> dom timeframe_configs"
    by (simp add: timeframe_configs_def)
  have l: "sequence_length \<le> length (replicate 60 example_kline)"
    by (simp add: sequence_length_def)
  have m: "cache_key ''BTCUSDT'' ''1d'' \<in> dom (models example_predictor)"
    using example_models by blast
  have i: "in_klines example_inputs = Inr (replicate 60 example_kline)"
    "in_features example_inputs = Inr example_features" "in_now example_inputs = 1600"
    by (simp_all add: example_inputs_def)
  from th d l m i example_cached w
  have "predict_price example_predictor ''BTCUSDT'' ''1d'' example_inputs
        = (Inr example_forecast, example_predictor)"
    by simp
  with example_cached w first second d l m show ?thesis by blast
qed

text \<open>
  Claim C5. The volatility factors are \<open>1.0\<close>, \<open>0.6\<close>, \<open>0.4\<close> and \<open>0.3\<close> for \<open>1h\<close>,
  \<open>4h\<close>, \<open>1d\<close> and \<open>7d\<close>; for a fixed raw change the magnitude of the dampened change
  does not increase along that order; and the candidate price is the current price plus
  the dampened change, which is the predicted price when nothing is cached for the key.
\<close>

theorem dampening_monotone:
  "timeframe_volatility_factor ''1h'' = 1.0 \<and> timeframe_volatility_factor ''4h'' = 0.6
   \<and> timeframe_volatility_factor ''1d'' = 0.4 \<and> timeframe_volatility_factor ''7d'' = 0.3
   \<and> dampened_change tf raw_change = raw_change * timeframe_volatility_factor tf
   \<and> \<bar>dampened_change ''4h'' raw_change\<bar> \<le> \<bar>dampened_change ''1h'' raw_change\<bar>
   \<and> \<bar>dampened_change ''1d'' raw_change\<bar> \<le> \<bar>dampened_change ''4h'' raw_change\<bar>
   \<and> \<bar>dampened_change ''7d'' raw_change\<bar> \<le> \<bar>dampened_change ''1d'' raw_change\<bar>
   \<and> dampened_prediction tf current_price predicted = current_price + dampened_change tf (predicted - current_price)
   \<and> (models self (cache_key symbol tf) = Some model
      \<and> scalers self (cache_key symbol tf) = Some inverse_transform
      \<and> model feats = Inr p \<and> f_close feats \<noteq> []
      \<and> prediction_cache self (cache_key symbol tf) = None
      \<longrightarrow> (\<exists>r self'. make_prediction self now bc symbol tf feats = (Inr r, self')
            \<and> fc_current_price r = last (f_close feats)
            \<and> fc_predicted_price r =
                fc_current_price r + dampened_change tf (inverse_transform p - fc_current_price r)))"
proof -
  have m: "\<bar>dampened_change ''4h'' raw_change\<bar> \<le> \<bar>dampened_change ''1h'' raw_change\<bar>
   \<and> \<bar>dampened_change ''1d'' raw_change\<bar> \<le> \<bar>dampened_change ''4h'' raw_change\<bar>
   \<and> \<bar>dampened_change ''7d'' raw_change\<bar> \<le> \<bar>dampened_change ''1d'' raw_change\<bar>"
    unfolding dampened_change_def volatility_factors by (simp add: abs_mult)
  have d: "dampened_prediction tf current_price predicted = current_price + dampened_change tf (predicted - current_price)"
    by (simp add: dampened_prediction_def)
  have c: "models self (cache_key symbol tf) = Some model
      \<and> scalers self (cache_key symbol tf) = Some inverse_transform
      \<and> model feats = Inr p \<and> f_close feats \<noteq> []
      \<and> prediction_cache self (cache_key symbol tf) = None
      \<longrightarrow> (\<exists>r self'. make_prediction self now bc symbol tf feats = (Inr r, self')
            \<and> fc_current_price r = last (f_close feats)
            \<and> fc_predicted_price r =
                fc_current_price r + dampened_change tf (inverse_transform p - fc_current_price r))"
  proof
    assume h: "models self (cache_key symbol tf) = Some model
      \<and> scalers self (cache_key symbol tf) = Some inverse_transform
      \<and> model feats = Inr p \<and> f_close feats \<noteq> []
      \<and> prediction_cache self (cache_key symbol tf) = None"
    then have e: "make_prediction self now bc symbol tf feats = compute_prediction self now bc symbol tf feats"
      using make_prediction_miss by blast
    from h compute_prediction_success [of self symbol tf model inverse_transform feats p now bc]
    show "\<exists>r self'. make_prediction self now bc symbol tf feats = (Inr r, self')
            \<and> fc_current_price r = last (f_close feats)
            \<and> fc_predicted_price r =
                fc_current_price r + dampened_change tf (inverse_transform p - fc_current_price r)"
      unfolding e by (auto simp add: dampened_prediction_def)
  qed
  have dc: "dampened_change tf raw_change = raw_change * timeframe_volatility_factor tf"
    by (simp add: dampened_change_def)
  from m d c dc volatility_factors show ?thesis
    by blast
qed

theorem dampening_monotone_witness:
  "models fresh_predictor (cache_key ''BTCUSDT'' ''1d'') = Some example_model
   \<and> scalers fresh_predictor (cache_key ''BTCUSDT'' ''1d'') = Some example_scaler
   \<and> example_model example_features = Inr 0.6 \<and> f_close example_features \<noteq> []
   \<and> prediction_cache fresh_predictor (cache_key ''BTCUSDT'' ''1d'') = None
   \<and> (\<exists>r self'. make_prediction fresh_predictor 1600 0.8 ''BTCUSDT'' ''1d'' example_features = (Inr r, self')
         \<and> fc_current_price r = 100 \<and> fc_predicted_price r = 108)"
proof -
  note th = dampening_monotone
    [where self = fresh_predictor and symbol = "''BTCUSDT''" and tf = "''1d''"
       and model = example_model and inverse_transform = example_scaler
       and feats = example_features and p = "0.6" and now = 1600 and bc = "0.8"]
  have f: "example_model example_features = Inr 0.6" "f_close example_features \<noteq> []"
    "last (f_close example_features) = 100"
    by (simp_all add: example_model_def example_features_def)
  from th example_models f obtain r self' where
    r: "make_prediction fresh_predictor 1600 0.8 ''BTCUSDT'' ''1d'' example_features = (Inr r, self')"
    and c: "fc_current_price r = last (f_close example_features)"
    and p: "fc_predicted_price r =
              fc_current_price r + dampened_change ''1d'' (example_scaler 0.6 - fc_current_price r)"
    by blast
  from th have v: "dampened_change ''1d'' 20 = 20 * timeframe_volatility_factor ''1d''"
    "timeframe_volatility_factor ''1d'' = 0.4"
    by (simp_all add: dampened_change_def)
  from c f have c': "fc_current_price r = 100" by simp
  have "example_scaler 0.6 - 100 = 20" by (simp add: example_scaler_def)
  with p c' v have "fc_predicted_price r = 108" by simp
  with r c' example_models f show ?thesis by blast
qed



section \<open>Properties of the recommendation engine\<close>

subsection \<open>Decision\<close>

lemma final_action_confidence:
  "action (generate_final_recommendation symbol analysis sc config) =
     (if min 0.95 (\<bar>overall_score sc\<bar> + 0.1) < min_confidence config then ''hold''
      else if overall_score sc > 0.3 then ''buy''
      else if overall_score sc < - 0.3 then ''sell'' else ''hold'')"
  "confidence (generate_final_recommendation symbol analysis sc config) =
     (if min 0.95 (\<bar>overall_score sc\<bar> + 0.1) < min_confidence config then 0.5
      else min 0.95 (\<bar>overall_score sc\<bar> + 0.1))"
  by (simp_all add: generate_final_recommendation_def Let_def)

text \<open>
  Claim C1. With \<open>s\<close> the fused overall score and \<open>c = min(0.95, |s| + 0.1)\<close>, the
  recommendation is buy exactly when \<open>s > 0.3\<close>, sell exactly when \<open>s < -0.3\<close> and hold
  otherwise, unless \<open>c\<close> is below the profile's \<open>min_confidence\<close>, when the action is
  hold and the confidence \<open>0.5\<close>; otherwise the confidence is \<open>c\<close>. A score of exactly
  \<open>0.3\<close> is a hold (shown under the high profile, whose floor \<open>0.4\<close> lets it through).
  Under the low profile (\<open>min_confidence = 0.8\<close>) a score of \<open>0.25\<close> gives hold with
  confidence \<open>0.5\<close> and neither target price nor stop-loss. For each of the three risk
  levels, \<open>generate_recommendation\<close> returns this recommendation for the scores fused
  from whatever was gathered.
\<close>

theorem recommendation_decision:
  fixes symbol :: string and analysis :: analysis_data and sc :: scores and config :: risk_config
    and results :: task_results
  defines "r \<equiv> generate_final_recommendation symbol analysis sc config"
    and "s \<equiv> overall_score sc"
  defines "c \<equiv> min 0.95 (\<bar>s\<bar> + 0.1)"
  shows "(action r = ''buy'') = (s > 0.3 \<and> min_confidence config \<le> c)
       \<and> (action r = ''sell'') = (s < - 0.3 \<and> min_confidence config \<le> c)
       \<and> (action r = ''hold'') = ((- 0.3 \<le> s \<and> s \<le> 0.3) \<or> c < min_confidence config)
       \<and> confidence r = (if c < min_confidence config then 0.5 else c)
       \<and> generate_final_recommendation symbol analysis (sc\<lparr>overall_score := 0.3\<rparr>) high_config
           = \<lparr> action = ''hold'', confidence = 0.4, target_price = None, stop_loss = None,
               rec_scores = sc\<lparr>overall_score := 0.3\<rparr>, risk_reward_ratio = None \<rparr>
       \<and> risk_configs ''low'' = Some low_config \<and> min_confidence low_config = 0.8
       \<and> generate_final_recommendation symbol analysis (sc\<lparr>overall_score := 0.25\<rparr>) low_config
           = \<lparr> action = ''hold'', confidence = 0.5, target_price = None, stop_loss = None,
               rec_scores = sc\<lparr>overall_score := 0.25\<rparr>, risk_reward_ratio = None \<rparr>
       \<and> generate_recommendation symbol ''low'' results
           = Inr (generate_final_recommendation symbol (gather_analysis_data results)
                   (calculate_recommendation_scores (gather_analysis_data results) low_config) low_config)
       \<and> generate_recommendation symbol ''medium'' results
           = Inr (generate_final_recommendation symbol (gather_analysis_data results)
                   (calculate_recommendation_scores (gather_analysis_data results) medium_config) medium_config)
       \<and> generate_recommendation symbol ''high'' results
           = Inr (generate_final_recommendation symbol (gather_analysis_data results)
                   (calculate_recommendation_scores (gather_analysis_data results) high_config) high_config)"
proof -
  have a: "(action r = ''buy'') = (s > 0.3 \<and> min_confidence config \<le> c)"
    unfolding r_def s_def c_def final_action_confidence by auto
  have b: "(action r = ''sell'') = (s < - 0.3 \<and> min_confidence config \<le> c)"
    unfolding r_def s_def c_def final_action_confidence by auto
  have h: "(action r = ''hold'') = ((- 0.3 \<le> s \<and> s \<le> 0.3) \<or> c < min_confidence config)"
    unfolding r_def s_def c_def final_action_confidence by auto
  have d: "confidence r = (if c < min_confidence config then 0.5 else c)"
    unfolding r_def s_def c_def final_action_confidence by simp
  have e: "generate_final_recommendation symbol analysis (sc\<lparr>overall_score := 0.3\<rparr>) high_config
           = \<lparr> action = ''hold'', confidence = 0.4, target_price = None, stop_loss = None,
               rec_scores = sc\<lparr>overall_score := 0.3\<rparr>, risk_reward_ratio = None \<rparr>"
    by (simp add: generate_final_recommendation_def Let_def high_config_def truthy_def)
  have f: "generate_final_recommendation symbol analysis (sc\<lparr>overall_score := 0.25\<rparr>) low_config
           = \<lparr> action = ''hold'', confidence = 0.5, target_price = None, stop_loss = None,
               rec_scores = sc\<lparr>overall_score := 0.25\<rparr>, risk_reward_ratio = None \<rparr>"
    by (simp add: generate_final_recommendation_def Let_def low_config_def truthy_def)
  have g: "risk_configs ''low'' = Some low_config" "risk_configs ''medium'' = Some medium_config"
     "risk_configs ''high'' = Some high_config" "min_confidence low_config = 0.8"
    by (simp_all add: risk_configs_def low_config_def)
  show ?thesis
    using a b h d e f g by (simp add: generate_recommendation_def Let_def)
qed

subsection \<open>Partial failures\<close>


subsection \<open>Technical score\<close>















end
